theory Spec2Isabelle
  imports Complex_Main
begin

section \<open>Python values\<close>

text \<open>
  The capability list of a device and the cached state of a capability are parsed JSON:
  \<^verbatim>\<open>None\<close>, booleans, integers, floats, strings, lists and dicts with string keys. A
  float is a finite binary64 number, carried by its exact rational value (JSON has no
  literal for an infinity or a NaN). A dict is the list of its items in insertion order;
  the keys of a parsed dict are distinct, and \<open>map_of\<close> reads the first item of a key.
\<close>

datatype pyval =
    PNone
  | PBool bool
  | PInt int
  | PFloat rat
  | PStr string
  | PList "pyval list"
  | PDict "(string \<times> pyval) list"

text \<open>What the source raises; every raise is the \<open>Inl\<close> branch of a result.\<close>

datatype py_error = KeyError | TypeError | AttributeError | ValueError | OverflowError

definition ebind :: "py_error + 'a \<Rightarrow> ('a \<Rightarrow> py_error + 'b) \<Rightarrow> py_error + 'b" where
  "ebind m f = (case m of Inl e \<Rightarrow> Inl e | Inr x \<Rightarrow> f x)"

text \<open>A \<^verbatim>\<open>for\<close> loop over the items of a list, the state threaded through the body;
  the first raise of the body ends the loop.\<close>

fun for_each :: "('a \<Rightarrow> 's \<Rightarrow> py_error + 's) \<Rightarrow> 'a list \<Rightarrow> 's \<Rightarrow> py_error + 's" where
  "for_each body [] s = Inr s"
| "for_each body (x # xs) s = ebind (body x s) (for_each body xs)"

subsection \<open>Equality, truth value, hashing\<close>

text \<open>Python's \<^verbatim>\<open>==\<close>: booleans, integers and floats compare by their numeric value
  (\<^verbatim>\<open>True == 1 == 1.0\<close>), lists item by item, dicts as maps from keys to values.\<close>

fun num_of :: "pyval \<Rightarrow> rat option" where
  "num_of (PBool b) = Some (if b then 1 else 0)"
| "num_of (PInt i) = Some (of_int i)"
| "num_of (PFloat r) = Some r"
| "num_of _ = None"

lemma map_of_size: "map_of d k = Some v \<Longrightarrow> size v < Suc (size_list (size_prod (\<lambda>_. 0) size) d)"
  by (induction d) (auto split: if_splits)

function py_eq :: "pyval \<Rightarrow> pyval \<Rightarrow> bool" where
  "py_eq PNone b = (b = PNone)"
| "py_eq (PBool x) b = (num_of b = Some (if x then 1 else 0))"
| "py_eq (PInt i) b = (num_of b = Some (of_int i))"
| "py_eq (PFloat r) b = (num_of b = Some r)"
| "py_eq (PStr s) b = (b = PStr s)"
| "py_eq (PList xs) b = (case b of PList ys \<Rightarrow> list_all2 py_eq xs ys | _ \<Rightarrow> False)"
| "py_eq (PDict d) b = (case b of
      PDict e \<Rightarrow> set (map fst d) = set (map fst e) \<and>
        (\<forall>k \<in> set (map fst d). case map_of d k of None \<Rightarrow> False
            | Some v \<Rightarrow> (case map_of e k of None \<Rightarrow> False | Some w \<Rightarrow> py_eq v w))
    | _ \<Rightarrow> False)"
  by pat_completeness auto
termination
  apply (relation "measure (\<lambda>(a, b). size a)")
    apply simp
   apply (auto dest: map_of_size simp: less_Suc_eq_le size_list_estimation')
  done

text \<open>\<^verbatim>\<open>bool(v)\<close>, as \<^verbatim>\<open>if v\<close> and \<^verbatim>\<open>not v\<close> read it.\<close>

fun py_truthy :: "pyval \<Rightarrow> bool" where
  "py_truthy PNone = False"
| "py_truthy (PBool b) = b"
| "py_truthy (PInt i) = (i \<noteq> 0)"
| "py_truthy (PFloat r) = (r \<noteq> 0)"
| "py_truthy (PStr s) = (s \<noteq> [])"
| "py_truthy (PList xs) = (xs \<noteq> [])"
| "py_truthy (PDict d) = (d \<noteq> [])"

text \<open>Lists and dicts are unhashable: using one as a dict key raises TypeError.\<close>

fun py_hashable :: "pyval \<Rightarrow> bool" where
  "py_hashable (PList xs) = False"
| "py_hashable (PDict d) = False"
| "py_hashable _ = True"

subsection \<open>Subscripts, \<^verbatim>\<open>.get\<close>, iteration\<close>

text \<open>\<^verbatim>\<open>obj[key]\<close> with a string key: KeyError on a dict without the key, TypeError on
  anything that is not a dict.\<close>

fun py_getitem :: "pyval \<Rightarrow> string \<Rightarrow> py_error + pyval" where
  "py_getitem (PDict d) key = (case map_of d key of None \<Rightarrow> Inl KeyError | Some v \<Rightarrow> Inr v)"
| "py_getitem _ key = Inl TypeError"

text \<open>\<^verbatim>\<open>obj.get(key, default)\<close>: only a dict has the method.\<close>

fun py_get :: "pyval \<Rightarrow> string \<Rightarrow> pyval \<Rightarrow> py_error + pyval" where
  "py_get (PDict d) key dflt = Inr (case map_of d key of None \<Rightarrow> dflt | Some v \<Rightarrow> v)"
| "py_get _ key dflt = Inl AttributeError"

text \<open>The items a \<^verbatim>\<open>for\<close> loop visits: the elements of a list, the keys of a dict, the
  characters of a string; any other value is not iterable.\<close>

fun py_iter :: "pyval \<Rightarrow> py_error + pyval list" where
  "py_iter (PList xs) = Inr xs"
| "py_iter (PDict d) = Inr (map (\<lambda>(k, v). PStr k) d)"
| "py_iter (PStr s) = Inr (map (\<lambda>c. PStr [c]) s)"
| "py_iter _ = Inl TypeError"

subsection \<open>Dicts keyed by Python values\<close>

text \<open>The dicts the entity builds are keyed by vendor values. An item assignment keeps
  the position and the key of an item whose key is equal, and appends a new item
  otherwise; \<^verbatim>\<open>.items()\<close> is the list itself.\<close>

fun dict_lookup :: "(pyval \<times> 'v) list \<Rightarrow> pyval \<Rightarrow> 'v option" where
  "dict_lookup [] k = None"
| "dict_lookup ((k', v) # d) k = (if py_eq k' k then Some v else dict_lookup d k)"

fun dict_store :: "(pyval \<times> 'v) list \<Rightarrow> pyval \<Rightarrow> 'v \<Rightarrow> (pyval \<times> 'v) list" where
  "dict_store [] k v = [(k, v)]"
| "dict_store ((k', v') # d) k v =
     (if py_eq k' k then (k', v) # d else (k', v') # dict_store d k v)"

definition py_setitem :: "(pyval \<times> 'v) list \<Rightarrow> pyval \<Rightarrow> 'v \<Rightarrow> py_error + (pyval \<times> 'v) list" where
  "py_setitem d k v = (if py_hashable k then Inr (dict_store d k v) else Inl TypeError)"

section \<open>Floats\<close>

text \<open>
  The result of a float operation is a binary64 value: a finite one (its exact rational
  value), an infinity or a NaN. \<open>round_double\<close> rounds a rational to the nearest
  binary64 value, ties to even: 53 significant bits for a normal number, multiples of
  \<open>2^-1074\<close> below \<open>2^-1022\<close>, an infinity from \<open>2^1024\<close> on. The two zeros are
  one value (they are \<^verbatim>\<open>==\<close> in Python).
\<close>

datatype pyfloat = Finite rat | PosInf | NegInf | NaN

definition pow2 :: "int \<Rightarrow> rat" where
  "pow2 e = (if 0 \<le> e then 2 ^ nat e else 1 / 2 ^ nat (- e))"

text \<open>The number of binary digits of a positive integer (\<^verbatim>\<open>int.bit_length\<close>).\<close>

function bit_length :: "int \<Rightarrow> int" where
  "bit_length a = (if a \<le> 0 then 0 else 1 + bit_length (a div 2))"
  by pat_completeness auto
termination
  by (relation "measure nat") auto

declare bit_length.simps [simp del]

text \<open>\<open>ilog2 q\<close> is the exponent \<open>e\<close> with \<open>2^e \<le> q < 2^(e+1)\<close>, for \<open>q > 0\<close>: for
  \<open>q = a / b\<close> it is the difference of the bit lengths of \<open>a\<close> and \<open>b\<close>, or one less.\<close>

definition ilog2 :: "rat \<Rightarrow> int" where
  "ilog2 q = (let (a, b) = quotient_of q;
                  k = bit_length a - bit_length b
              in if pow2 k \<le> q then k else k - 1)"

definition round_half_even :: "rat \<Rightarrow> int" where
  "round_half_even x = (let f = \<lfloor>x\<rfloor>; d = x - of_int f in
      if d < 1 / 2 then f else if 1 / 2 < d then f + 1 else if even f then f else f + 1)"

definition round_double :: "rat \<Rightarrow> pyfloat" where
  "round_double q = (if q = 0 then Finite 0 else
     let a = \<bar>q\<bar>;
         e = max (ilog2 a) (- 1022);
         quantum = pow2 (e - 52);
         r = of_int (round_half_even (a / quantum)) * quantum
     in if pow2 1024 \<le> r then (if 0 < q then PosInf else NegInf)
        else Finite (if 0 < q then r else - r))"


text \<open>\<^verbatim>\<open>float(v)\<close>. An integer is rounded, and raises OverflowError beyond the range;
  a string is parsed by Python's float parser, a parameter here (\<open>None\<close> where the
  parser raises ValueError); \<^verbatim>\<open>None\<close>, a list and a dict raise TypeError.\<close>

fun py_float :: "(string \<Rightarrow> pyfloat option) \<Rightarrow> pyval \<Rightarrow> py_error + pyfloat" where
  "py_float parse PNone = Inl TypeError"
| "py_float parse (PBool b) = Inr (Finite (if b then 1 else 0))"
| "py_float parse (PInt i) =
     (case round_double (of_int i) of Finite r \<Rightarrow> Inr (Finite r) | _ \<Rightarrow> Inl OverflowError)"
| "py_float parse (PFloat r) = Inr (Finite r)"
| "py_float parse (PStr s) = (case parse s of None \<Rightarrow> Inl ValueError | Some x \<Rightarrow> Inr x)"
| "py_float parse (PList xs) = Inl TypeError"
| "py_float parse (PDict d) = Inl TypeError"

section \<open>Home Assistant constants\<close>

datatype HVACMode = OFF | HEAT | COOL | HEAT_COOL | AUTO | DRY | FAN_ONLY

text \<open>The feature flags the entity sets; the flag word is the set of the flags set.\<close>

datatype ClimateEntityFeature = TARGET_TEMPERATURE | PRESET_MODE | TURN_OFF | TURN_ON

datatype UnitOfTemperature = CELSIUS | FAHRENHEIT | KELVIN

text \<open>\<^verbatim>\<open>UnitOfTemperature[name]\<close>: the member of that name, KeyError for any other.\<close>

definition unit_of_name :: "string \<Rightarrow> py_error + UnitOfTemperature" where
  "unit_of_name s =
     (if s = ''CELSIUS'' then Inr CELSIUS
      else if s = ''FAHRENHEIT'' then Inr FAHRENHEIT
      else if s = ''KELVIN'' then Inr KELVIN
      else Inl KeyError)"

text \<open>\<^verbatim>\<open>s.upper()\<close>: the ASCII letters are mapped to their capitals, every other
  character stays as it is (the names of the units are ASCII). Only a string has the
  method.\<close>

definition upper_char :: "char \<Rightarrow> char" where
  "upper_char c =
     (case map_of (zip ''abcdefghijklmnopqrstuvwxyz'' ''ABCDEFGHIJKLMNOPQRSTUVWXYZ'') c of
        None \<Rightarrow> c | Some u \<Rightarrow> u)"

fun py_upper :: "pyval \<Rightarrow> py_error + string" where
  "py_upper (PStr s) = Inr (map upper_char s)"
| "py_upper _ = Inl AttributeError"

text \<open>\<^verbatim>\<open>UnitOfTemperature[v.upper()]\<close>.\<close>

definition unit_of :: "pyval \<Rightarrow> py_error + UnitOfTemperature" where
  "unit_of v = ebind (py_upper v) unit_of_name"

section \<open>The state of the climate platform\<close>

text \<open>
  \<^verbatim>\<open>GoveeLifeClimate\<close> declares its six mode containers as class attributes (lines
  65 to 70). \<^verbatim>\<open>self._attr_hvac_modes.append(...)\<close> and
  \<^verbatim>\<open>self._attr_hvac_modes_mapping[...] = ...\<close> mutate the objects of the class, which
  every entity of the class shares: they are the fields of \<open>climate_class\<close>. The
  work-mode branch first binds fresh containers to the instance
  (\<^verbatim>\<open>self._attr_preset_modes = []\<close>), and nothing mutates the empty preset containers of
  the class: the preset containers are fields of \<open>climate_entity\<close> and start empty.
  \<^verbatim>\<open>_attr_hvac_modes_mapping_set\<close> is keyed by the enum, so it is a map; the two dicts
  keyed by vendor values and the dict of the preset payloads keep their items in order.
\<close>

record preset =
  workMode :: pyval
  modeValue :: pyval

record climate_class =
  attr_hvac_modes :: "HVACMode list"
  attr_hvac_modes_mapping :: "(pyval \<times> HVACMode) list"
  attr_hvac_modes_mapping_set :: "HVACMode \<rightharpoonup> pyval"

record climate_entity =
  attr_supported_features :: "ClimateEntityFeature set"
  attr_preset_modes :: "pyval list"
  attr_preset_modes_mapping :: "(pyval \<times> pyval) list"
  attr_preset_modes_mapping_set :: "(pyval \<times> preset) list"
  attr_max_temp :: "pyval option"
  attr_min_temp :: "pyval option"
  attr_target_temperature_step :: "pyval option"
  attr_temperature_unit :: "UnitOfTemperature option"

type_synonym climate = "climate_class \<times> climate_entity"

text \<open>The class as the module defines it, and an entity before its initialization (no
  flag set, nothing assigned).\<close>

definition class_initial :: climate_class where
  "class_initial = \<lparr>attr_hvac_modes = [], attr_hvac_modes_mapping = [],
     attr_hvac_modes_mapping_set = Map.empty\<rparr>"

definition entity_initial :: climate_entity where
  "entity_initial = \<lparr>attr_supported_features = {}, attr_preset_modes = [],
     attr_preset_modes_mapping = [], attr_preset_modes_mapping_set = [],
     attr_max_temp = None, attr_min_temp = None, attr_target_temperature_step = None,
     attr_temperature_unit = None\<rparr>"

section \<open>\<^verbatim>\<open>_init_platform_specific\<close>\<close>

text \<open>Logging calls have no effect on the state and are left out.\<close>

subsection \<open>The on/off capability (lines 80 to 93)\<close>

definition on_off_option :: "pyval \<Rightarrow> climate \<Rightarrow> py_error + climate" where
  "on_off_option option = (\<lambda>(c, e).
     ebind (py_getitem option ''name'') (\<lambda>name.
       if py_eq name (PStr ''on'') then
         ebind (py_getitem option ''value'') (\<lambda>v.
         ebind (py_setitem (attr_hvac_modes_mapping c) v HEAT_COOL) (\<lambda>m.
           Inr (c\<lparr>attr_hvac_modes := attr_hvac_modes c @ [HEAT_COOL],
                   attr_hvac_modes_mapping := m,
                   attr_hvac_modes_mapping_set := (attr_hvac_modes_mapping_set c)(HEAT_COOL \<mapsto> v)\<rparr>,
                e\<lparr>attr_supported_features := insert TURN_ON (attr_supported_features e)\<rparr>)))
       else if py_eq name (PStr ''off'') then
         ebind (py_getitem option ''value'') (\<lambda>v.
         ebind (py_setitem (attr_hvac_modes_mapping c) v OFF) (\<lambda>m.
           Inr (c\<lparr>attr_hvac_modes := attr_hvac_modes c @ [OFF],
                   attr_hvac_modes_mapping := m,
                   attr_hvac_modes_mapping_set := (attr_hvac_modes_mapping_set c)(OFF \<mapsto> v)\<rparr>,
                e\<lparr>attr_supported_features := insert TURN_OFF (attr_supported_features e)\<rparr>)))
       else Inr (c, e)))"

subsection \<open>The temperature setting (lines 94 to 104)\<close>

definition temperature_field :: "pyval \<Rightarrow> climate_entity \<Rightarrow> py_error + climate_entity" where
  "temperature_field field e =
     ebind (py_getitem field ''fieldName'') (\<lambda>fn.
       if py_eq fn (PStr ''temperature'') then
         ebind (ebind (py_getitem field ''range'') (\<lambda>r. py_getitem r ''max'')) (\<lambda>mx.
         ebind (ebind (py_getitem field ''range'') (\<lambda>r. py_getitem r ''min'')) (\<lambda>mn.
         ebind (ebind (py_getitem field ''range'') (\<lambda>r. py_getitem r ''precision'')) (\<lambda>pr.
           Inr (e\<lparr>attr_max_temp := Some mx, attr_min_temp := Some mn,
                   attr_target_temperature_step := Some pr\<rparr>))))
       else if py_eq fn (PStr ''unit'') then
         ebind (py_getitem field ''defaultValue'') (\<lambda>d.
         ebind (unit_of d) (\<lambda>u.
           Inr (e\<lparr>attr_temperature_unit := Some u\<rparr>)))
       else Inr e)"

subsection \<open>The work mode (lines 105 to 149)\<close>

text \<open>\<^verbatim>\<open>next((f for f in fields if f['fieldName'] == name), None)\<close>: the first field of
  that name; the fields before it are subscripted, the ones after it are not read.\<close>

fun find_field :: "string \<Rightarrow> pyval list \<Rightarrow> py_error + pyval" where
  "find_field name [] = Inr PNone"
| "find_field name (f # fs) =
     ebind (py_getitem f ''fieldName'') (\<lambda>fn.
       if py_eq fn (PStr name) then Inr f else find_field name fs)"

text \<open>The three statements that register a preset (lines 130 to 135, and again 142 to
  147): the name is appended, then stored in both dicts.\<close>

definition register_preset :: "pyval \<Rightarrow> pyval \<Rightarrow> pyval \<Rightarrow> climate_entity \<Rightarrow> py_error + climate_entity" where
  "register_preset mode_name value mode_value e =
     ebind (py_setitem (attr_preset_modes_mapping e) mode_name value) (\<lambda>m.
     ebind (py_setitem (attr_preset_modes_mapping_set e) mode_name
              \<lparr>workMode = value, modeValue = mode_value\<rparr>) (\<lambda>ms.
       Inr (e\<lparr>attr_preset_modes := attr_preset_modes e @ [mode_name],
               attr_preset_modes_mapping := m,
               attr_preset_modes_mapping_set := ms\<rparr>)))"

text \<open>\<^verbatim>\<open>f"{name}-{level_name}"\<close> formats the level name with \<^verbatim>\<open>str\<close>: a string is
  itself; the text of any other value is Python's, a parameter here.\<close>

definition py_format :: "(pyval \<Rightarrow> string) \<Rightarrow> pyval \<Rightarrow> string" where
  "py_format str_of v = (case v of PStr s \<Rightarrow> s | _ \<Rightarrow> str_of v)"

definition gear_level :: "(pyval \<Rightarrow> string) \<Rightarrow> pyval \<Rightarrow> pyval \<Rightarrow> climate_entity \<Rightarrow> py_error + climate_entity" where
  "gear_level str_of value level e =
     ebind (py_getitem level ''name'') (\<lambda>level_name.
     ebind (py_getitem level ''value'') (\<lambda>level_value.
       register_preset (PStr (''gearMode-'' @ py_format str_of level_name)) value level_value e))"

definition gear_sub :: "(pyval \<Rightarrow> string) \<Rightarrow> pyval \<Rightarrow> pyval \<Rightarrow> climate_entity \<Rightarrow> py_error + climate_entity" where
  "gear_sub str_of value sub e =
     ebind (py_get sub ''name'' PNone) (\<lambda>sub_name.
       if \<not> py_eq sub_name (PStr ''gearMode'') then Inr e
       else ebind (ebind (py_get sub ''options'' (PList [])) py_iter) (\<lambda>levels.
              for_each (gear_level str_of value) levels e))"

definition default_step :: "pyval \<Rightarrow> pyval \<Rightarrow> pyval \<Rightarrow> py_error + pyval" where
  "default_step name f default_val =
     ebind (py_get f ''name'' PNone) (\<lambda>f_name.
       if py_eq f_name name then py_get f ''defaultValue'' (PInt 0) else Inr default_val)"

definition work_option_step :: "(pyval \<Rightarrow> string) \<Rightarrow> pyval \<Rightarrow> pyval \<Rightarrow> climate_entity \<Rightarrow> py_error + climate_entity" where
  "work_option_step str_of mode_field work_option e =
     ebind (py_getitem work_option ''name'') (\<lambda>name.
     ebind (py_getitem work_option ''value'') (\<lambda>value.
       if py_eq name (PStr ''gearMode'') then
         ebind (ebind (py_get mode_field ''options'' (PList [])) py_iter) (\<lambda>subs.
           for_each (gear_sub str_of value) subs e)
       else
         ebind (ebind (py_get mode_field ''options'' (PList [])) py_iter) (\<lambda>fs.
         ebind (for_each (default_step name) fs (PInt 0)) (\<lambda>default_val.
           register_preset name value default_val e))))"

definition work_mode_cap :: "(pyval \<Rightarrow> string) \<Rightarrow> pyval \<Rightarrow> climate_entity \<Rightarrow> py_error + climate_entity" where
  "work_mode_cap str_of cap e =
     (let e1 = e\<lparr>attr_supported_features := insert PRESET_MODE (attr_supported_features e),
                  attr_preset_modes := [], attr_preset_modes_mapping := [],
                  attr_preset_modes_mapping_set := []\<rparr>
      in
      ebind (ebind (ebind (py_getitem cap ''parameters'') (\<lambda>p. py_getitem p ''fields'')) py_iter) (\<lambda>fields.
      ebind (find_field ''workMode'' fields) (\<lambda>work_field.
      ebind (find_field ''modeValue'' fields) (\<lambda>mode_field.
        if \<not> py_truthy work_field \<or> \<not> py_truthy mode_field then Inr e1
        else ebind (ebind (py_get work_field ''options'' (PList [])) py_iter) (\<lambda>work_options.
               for_each (work_option_step str_of mode_field) work_options e1)))))"

subsection \<open>One capability, and the whole list (lines 76 to 153)\<close>

definition capability :: "(pyval \<Rightarrow> string) \<Rightarrow> pyval \<Rightarrow> climate \<Rightarrow> py_error + climate" where
  "capability str_of cap = (\<lambda>(c, e).
     ebind (py_getitem cap ''type'') (\<lambda>t.
       if py_eq t (PStr ''devices.capabilities.on_off'') then
         ebind (ebind (ebind (py_getitem cap ''parameters'') (\<lambda>p. py_getitem p ''options'')) py_iter)
           (\<lambda>options. for_each on_off_option options (c, e))
       else
         ebind (if py_eq t (PStr ''devices.capabilities.temperature_setting'')
                then ebind (py_getitem cap ''instance'') (\<lambda>i.
                       Inr (py_eq (PStr ''targetTemperature'') i \<or> py_eq (PStr ''sliderTemperature'') i))
                else Inr False) (\<lambda>is_temperature.
           if is_temperature then
             ebind (ebind (ebind (py_getitem cap ''parameters'') (\<lambda>p. py_getitem p ''fields'')) py_iter)
               (\<lambda>fields.
             ebind (for_each temperature_field fields
                      (e\<lparr>attr_supported_features :=
                           insert TARGET_TEMPERATURE (attr_supported_features e)\<rparr>))
               (\<lambda>e'. Inr (c, e')))
           else if py_eq t (PStr ''devices.capabilities.work_mode'') then
             ebind (work_mode_cap str_of cap e) (\<lambda>e'. Inr (c, e'))
           else
             ebind (if py_eq t (PStr ''devices.capabilities.property'')
                    then ebind (py_getitem cap ''instance'') (\<lambda>i.
                           Inr (py_eq i (PStr ''sensorTemperature'')))
                    else Inr False) (\<lambda>is_sensor. Inr (c, e)))))"

definition init_platform_specific :: "(pyval \<Rightarrow> string) \<Rightarrow> pyval \<Rightarrow> climate \<Rightarrow> py_error + climate" where
  "init_platform_specific str_of device_cfg s =
     ebind (ebind (py_get device_cfg ''capabilities'' (PList [])) py_iter) (\<lambda>capabilities.
       for_each (capability str_of) capabilities s)"

section \<open>The read properties\<close>

text \<open>\<^verbatim>\<open>GoveeAPI_GetCachedStateValue\<close> reads the cached state of one capability by its
  type and instance, \<^verbatim>\<open>None\<close> when there is none. The cache belongs to the coordinator;
  the properties take the reader as a parameter.\<close>

type_synonym snapshot = "string \<Rightarrow> string \<Rightarrow> pyval"



text \<open>Lines 183 to 196: the first item of the payload dict, in insertion order, whose
  payload has both values.\<close>

definition preset_matches :: "pyval \<Rightarrow> pyval \<Rightarrow> pyval \<times> preset \<Rightarrow> bool" where
  "preset_matches work_mode mode_value =
     (\<lambda>(preset_name, p). py_eq (workMode p) work_mode \<and> py_eq (modeValue p) mode_value)"

definition preset_mode :: "climate_entity \<Rightarrow> snapshot \<Rightarrow> py_error + pyval" where
  "preset_mode e cached =
     (let value = cached ''devices.capabilities.work_mode'' ''workMode'' in
      if \<not> py_truthy value then Inr PNone
      else
        ebind (py_get value ''workMode'' PNone) (\<lambda>work_mode.
        ebind (py_get value ''modeValue'' (PInt 0)) (\<lambda>mode_value.
          Inr (case find (preset_matches work_mode mode_value) (attr_preset_modes_mapping_set e) of
                 None \<Rightarrow> PNone
               | Some (preset_name, p) \<Rightarrow> preset_name))))"


text \<open>Lines 227 to 243. The preset name \<^verbatim>\<open>preset_mode\<close> returned is \<^verbatim>\<open>None\<close> or a key
  of the payload dict.\<close>

definition target_temperature ::
  "(string \<Rightarrow> pyfloat option) \<Rightarrow> climate_entity \<Rightarrow> snapshot \<Rightarrow> py_error + pyfloat option" where
  "target_temperature parse e cached =
     ebind (preset_mode e cached) (\<lambda>preset_name.
       let slider =
             (let value = cached ''devices.capabilities.temperature_setting'' ''sliderTemperature'' in
              if value = PNone then Inr None
              else ebind (py_get value ''targetTemperature'' PNone) (\<lambda>temperature.
                     if temperature = PNone then Inr None
                     else ebind (py_float parse temperature) (\<lambda>x. Inr (Some x))))
       in
       case (if py_truthy preset_name
             then dict_lookup (attr_preset_modes_mapping_set e) preset_name else None) of
         None \<Rightarrow> slider
       | Some p \<Rightarrow>
           let mode_value = modeValue p in
           if mode_value \<noteq> PNone \<and> \<not> py_eq mode_value (PInt 0)
           then ebind (py_float parse mode_value) (\<lambda>x. Inr (Some x))
           else slider)"


section \<open>The commands\<close>


definition async_set_hvac_mode :: "climate_class \<Rightarrow> HVACMode \<Rightarrow> py_error + pyval" where
  "async_set_hvac_mode c mode =
     (case attr_hvac_modes_mapping_set c mode of
        None \<Rightarrow> Inl KeyError
      | Some v \<Rightarrow> Inr (PDict [(''type'', PStr ''devices.capabilities.on_off''),
                               (''instance'', PStr ''powerSwitch''), (''value'', v)]))"

text \<open>Lines 245 to 258; \<open>kwargs\<close> are the keyword arguments of the call.\<close>

definition async_set_temperature :: "snapshot \<Rightarrow> (string \<times> pyval) list \<Rightarrow> py_error + pyval" where
  "async_set_temperature cached kwargs =
     (let value = cached ''devices.capabilities.temperature_setting'' ''targetTemperature'' in
      ebind (py_get value ''unit'' (PStr ''Celsius'')) (\<lambda>unit.
      ebind (py_getitem (PDict kwargs) ''temperature'') (\<lambda>temperature.
        Inr (PDict [(''type'', PStr ''devices.capabilities.temperature_setting''),
                    (''instance'', PStr ''targetTemperature''),
                    (''value'', PDict [(''temperature'', temperature), (''unit'', unit)])]))))"

section \<open>\<^verbatim>\<open>async_setup_entry\<close> (lines 45 to 59)\<close>

text \<open>The loop over the devices of the entry. \<open>make_entity\<close> stands for the lines 49 to
  51, the coordinator lookup and the constructor of the entity, on the state of the
  class. The result of the loop is the list of entities when it ran to its end, \<open>None\<close>
  when the handler of line 54 returned; the entities are added only after the loop.\<close>

fun device_loop ::
  "(pyval \<Rightarrow> 'c \<Rightarrow> py_error + 'c \<times> 'ent) \<Rightarrow> pyval list \<Rightarrow> 'c \<Rightarrow> 'ent list \<Rightarrow> 'ent list option" where
  "device_loop make_entity [] c entities = Some entities"
| "device_loop make_entity (device_cfg # rest) c entities =
     (case py_get device_cfg ''type'' PNone of
        Inl err \<Rightarrow> None
      | Inr t \<Rightarrow>
          if \<not> (py_eq (PStr ''devices.types.heater'') t \<or> py_eq (PStr ''devices.types.kettle'') t)
          then device_loop make_entity rest c entities
          else (case make_entity device_cfg c of
                  Inl err \<Rightarrow> None
                | Inr (c', entity) \<Rightarrow> device_loop make_entity rest c' (entities @ [entity])))"

definition async_setup_entry ::
  "(pyval \<Rightarrow> 'c \<Rightarrow> py_error + 'c \<times> 'ent) \<Rightarrow> pyval list \<Rightarrow> 'c \<Rightarrow> 'ent list" where
  "async_setup_entry make_entity api_devices c =
     (case device_loop make_entity api_devices c [] of None \<Rightarrow> [] | Some entities \<Rightarrow> entities)"

section \<open>Notions of the properties\<close>

text \<open>A cache that holds the listed readings, and \<^verbatim>\<open>None\<close> for every other capability.\<close>

definition cached_state :: "((string \<times> string) \<times> pyval) list \<Rightarrow> snapshot" where
  "cached_state entries capability_type instance =
     (case map_of entries (capability_type, instance) of None \<Rightarrow> PNone | Some v \<Rightarrow> v)"

text \<open>The capabilities that lines 150 to 153 pass over: a dict with a type that no branch
  handles, a temperature setting of another instance than the two handled, and a
  property of any instance (the sensor temperature is read by \<open>current_temperature\<close>
  only).\<close>

definition unhandled :: "pyval \<Rightarrow> bool" where
  "unhandled cap =
     (case py_getitem cap ''type'' of
        Inl err \<Rightarrow> False
      | Inr t \<Rightarrow>
          if t = PStr ''devices.capabilities.on_off'' \<or> t = PStr ''devices.capabilities.work_mode''
          then False
          else if t = PStr ''devices.capabilities.temperature_setting''
          then (case py_getitem cap ''instance'' of
                  Inl err \<Rightarrow> False
                | Inr i \<Rightarrow> i \<noteq> PStr ''targetTemperature'' \<and> i \<noteq> PStr ''sliderTemperature'')
          else if t = PStr ''devices.capabilities.property''
          then (case py_getitem cap ''instance'' of Inl err \<Rightarrow> False | Inr i \<Rightarrow> True)
          else True)"













subsection \<open>A heater, as the vendor describes one\<close>

definition heater_on_off :: pyval where
  "heater_on_off = PDict [
     (''type'', PStr ''devices.capabilities.on_off''),
     (''instance'', PStr ''powerSwitch''),
     (''parameters'', PDict [
        (''dataType'', PStr ''ENUM''),
        (''options'', PList [
           PDict [(''name'', PStr ''on''), (''value'', PInt 1)],
           PDict [(''name'', PStr ''off''), (''value'', PInt 0)]])])]"

definition heater_temperature :: pyval where
  "heater_temperature = PDict [
     (''type'', PStr ''devices.capabilities.temperature_setting''),
     (''instance'', PStr ''targetTemperature''),
     (''parameters'', PDict [
        (''dataType'', PStr ''STRUCT''),
        (''fields'', PList [
           PDict [(''fieldName'', PStr ''autoStop''), (''defaultValue'', PInt 0)],
           PDict [(''fieldName'', PStr ''temperature''),
                  (''range'', PDict [(''min'', PInt 5), (''max'', PInt 30), (''precision'', PInt 1)])],
           PDict [(''fieldName'', PStr ''unit''), (''defaultValue'', PStr ''Celsius'')]])])]"

definition heater_work_mode :: pyval where
  "heater_work_mode = PDict [
     (''type'', PStr ''devices.capabilities.work_mode''),
     (''instance'', PStr ''workMode''),
     (''parameters'', PDict [
        (''dataType'', PStr ''STRUCT''),
        (''fields'', PList [
           PDict [(''fieldName'', PStr ''workMode''),
                  (''options'', PList [
                     PDict [(''name'', PStr ''gearMode''), (''value'', PInt 1)],
                     PDict [(''name'', PStr ''Fan''), (''value'', PInt 9)],
                     PDict [(''name'', PStr ''Auto''), (''value'', PInt 3)]])],
           PDict [(''fieldName'', PStr ''modeValue''),
                  (''options'', PList [
                     PDict [(''name'', PStr ''gearMode''),
                            (''options'', PList [
                               PDict [(''name'', PStr ''Low''), (''value'', PInt 1)],
                               PDict [(''name'', PStr ''Medium''), (''value'', PInt 2)],
                               PDict [(''name'', PStr ''High''), (''value'', PInt 5)]])],
                     PDict [(''defaultValue'', PInt 0), (''name'', PStr ''Fan'')],
                     PDict [(''defaultValue'', PInt 22), (''name'', PStr ''Auto'')]])]])])]"

definition heater_event :: pyval where
  "heater_event = PDict [
     (''type'', PStr ''devices.capabilities.event''),
     (''instance'', PStr ''lackWaterEvent'')]"

definition heater :: pyval where
  "heater = PDict [
     (''device'', PStr ''AA:BB:CC:DD:EE:FF:00:11''),
     (''type'', PStr ''devices.types.heater''),
     (''capabilities'', PList [heater_on_off, heater_temperature, heater_event, heater_work_mode])]"


definition heater_entity :: climate_entity where
  "heater_entity = \<lparr>
     attr_supported_features = {TURN_ON, TURN_OFF, TARGET_TEMPERATURE, PRESET_MODE},
     attr_preset_modes =
       [PStr ''gearMode-Low'', PStr ''gearMode-Medium'', PStr ''gearMode-High'',
        PStr ''Fan'', PStr ''Auto''],
     attr_preset_modes_mapping =
       [(PStr ''gearMode-Low'', PInt 1), (PStr ''gearMode-Medium'', PInt 1),
        (PStr ''gearMode-High'', PInt 1), (PStr ''Fan'', PInt 9), (PStr ''Auto'', PInt 3)],
     attr_preset_modes_mapping_set =
       [(PStr ''gearMode-Low'', \<lparr>workMode = PInt 1, modeValue = PInt 1\<rparr>),
        (PStr ''gearMode-Medium'', \<lparr>workMode = PInt 1, modeValue = PInt 2\<rparr>),
        (PStr ''gearMode-High'', \<lparr>workMode = PInt 1, modeValue = PInt 5\<rparr>),
        (PStr ''Fan'', \<lparr>workMode = PInt 9, modeValue = PInt 0\<rparr>),
        (PStr ''Auto'', \<lparr>workMode = PInt 3, modeValue = PInt 22\<rparr>)],
     attr_max_temp = Some (PInt 30), attr_min_temp = Some (PInt 5),
     attr_target_temperature_step = Some (PInt 1),
     attr_temperature_unit = Some CELSIUS\<rparr>"

text \<open>A cache of the heater: the given work mode, and a slider temperature of 20.\<close>

definition heater_reading :: "pyval \<Rightarrow> snapshot" where
  "heater_reading work_mode = cached_state
     [((''devices.capabilities.work_mode'', ''workMode''), work_mode),
      ((''devices.capabilities.temperature_setting'', ''sliderTemperature''),
       PDict [(''targetTemperature'', PInt 20), (''unit'', PStr ''Celsius'')])]"


section \<open>Basic facts\<close>

lemma ebind_simps [simp]:
  "ebind (Inl err) f = Inl err"
  "ebind (Inr x) f = f x"
  by (simp_all add: ebind_def)


lemma for_each_append:
  "for_each body (xs @ ys) s = ebind (for_each body xs s) (for_each body ys)"
proof (induction xs arbitrary: s)
  case Nil
  show ?case by simp
next
  case (Cons x xs)
  show ?case by (cases "body x s") (simp_all add: Cons.IH)
qed


subsection \<open>Floats\<close>

text \<open>Powers of two by squaring, for evaluation.\<close>

lemma pow2_code [code]:
  "pow2 e = (if e < 0 then 1 / pow2 (- e)
             else if e = 0 then 1
             else let h = pow2 (e div 2) in if even e then h * h else 2 * h * h)"
proof -
  have "(2::rat) ^ nat e = (if even e then 2 ^ nat (e div 2) * 2 ^ nat (e div 2)
      else 2 * 2 ^ nat (e div 2) * 2 ^ nat (e div 2))" if "0 < e"
  proof -
    from that have "nat e = nat (e div 2) + nat (e div 2) + (if even e then 0 else 1)"
      by (auto elim!: evenE oddE simp: nat_add_distrib nat_mult_distrib)
    then show ?thesis
      by (auto simp: power_add)
  qed
  then show ?thesis
    by (auto simp: pow2_def Let_def)
qed














subsection \<open>Equality of Python values\<close>

lemma py_eq_PStr [simp]: "py_eq a (PStr s) = (a = PStr s)"
  by (cases a) auto




subsection \<open>Dicts\<close>



subsection \<open>The initialization of the heater\<close>




section \<open>Initialization and malformed capabilities\<close>

lemma capability_unhandled: "unhandled cap \<Longrightarrow> capability str_of cap s = Inr s"
  by (cases s) (auto simp: unhandled_def capability_def split: sum.splits if_splits)

text \<open>
  C1, as the code has it. The initialization has no handler of its own: a capability
  without a \<^verbatim>\<open>type\<close> raises KeyError and ends it. What it passes over is a capability
  that is well formed and that no branch handles: the state stays as it is, and the
  capabilities after it are initialized as if it were not in the list.
\<close>

theorem unhandled_capability_skipped:
  assumes "unhandled cap"
  shows "capability str_of cap s = Inr s \<and>
         init_platform_specific str_of
           (PDict ((''capabilities'', PList (before @ cap # after)) # other)) s =
         init_platform_specific str_of
           (PDict ((''capabilities'', PList (before @ after)) # other)) s"
proof -
  have skip: "capability str_of cap s' = Inr s'" for s'
    using assms by (rule capability_unhandled)
  have "for_each (capability str_of) (before @ cap # after) s =
        for_each (capability str_of) (before @ after) s"
    by (cases "for_each (capability str_of) before s") (simp_all add: for_each_append skip)
  then show ?thesis
    by (simp add: init_platform_specific_def skip)
qed

theorem unhandled_capability_skipped_witness:
  "unhandled heater_event \<and>
   capability (\<lambda>v. []) heater_event (class_initial, entity_initial) =
     Inr (class_initial, entity_initial) \<and>
   init_platform_specific (\<lambda>v. [])
     (PDict [(''capabilities'', PList [heater_on_off, heater_event, heater_work_mode])])
     (class_initial, entity_initial) =
   init_platform_specific (\<lambda>v. [])
     (PDict [(''capabilities'', PList [heater_on_off, heater_work_mode])])
     (class_initial, entity_initial)"
proof -
  have h: "unhandled heater_event"
    by (simp add: unhandled_def heater_event_def)
  from unhandled_capability_skipped [OF h, of "\<lambda>v. []" "(class_initial, entity_initial)"
      "[heater_on_off]" "[heater_work_mode]" "[]"] h
  show ?thesis by simp
qed

theorem malformed_capability_raises:
  "init_platform_specific (\<lambda>v. [])
     (PDict [(''capabilities'', PList [PDict [(''instance'', PStr ''powerSwitch'')], heater_on_off])])
     (class_initial, entity_initial) = Inl KeyError"
  by (simp add: init_platform_specific_def capability_def)

text \<open>The handler of the device loop returns: a device whose setup raises ends the
  loop, and no entity of the entry is added, the ones built before it included.\<close>

lemma device_loop_failure:
  assumes "py_get device_cfg ''type'' PNone = Inr (PStr ''devices.types.heater'')"
    and "make_entity device_cfg c = Inl err"
  shows "device_loop make_entity (device_cfg # rest) c entities = None"
  using assms by simp

section \<open>The containers of the class\<close>

text \<open>
  C2. The hvac containers are objects of the class, and the on/off branch appends to
  them without a reset. Two entities of the heater are initialized one after the other:
  the first leaves \<^verbatim>\<open>_attr_hvac_modes\<close> as \<open>[HEAT_COOL, OFF]\<close>, the second finds that list
  and leaves every mode twice.
\<close>

theorem second_entity_repeats_hvac_modes:
  "ebind (init_platform_specific (\<lambda>v. []) heater (class_initial, entity_initial)) (\<lambda>(c1, e1).
   ebind (init_platform_specific (\<lambda>v. []) heater (c1, entity_initial)) (\<lambda>(c2, e2).
     Inr (attr_hvac_modes c1, attr_hvac_modes c2))) =
   Inr ([HEAT_COOL, OFF], [HEAT_COOL, OFF, HEAT_COOL, OFF])"
  by (simp add: init_platform_specific_def capability_def heater_def heater_on_off_def
      heater_temperature_def heater_event_def heater_work_mode_def on_off_option_def
      temperature_field_def unit_of_def unit_of_name_def upper_char_def work_mode_cap_def
      work_option_step_def gear_sub_def gear_level_def default_step_def register_preset_def
      py_format_def py_setitem_def class_initial_def entity_initial_def)

section \<open>The on/off capability and the hvac maps\<close>








section \<open>The preset names and the payload dict\<close>















section \<open>The preset of a cached work mode\<close>







section \<open>The current temperature\<close>







section \<open>The target temperature\<close>

lemma round_small: "round_double 5 = Finite 5" "round_double 20 = Finite 20"
  by code_simp+

text \<open>
  C6. \<open>preset_mode\<close> resolved a preset name; a preset is active when that name is one
  line 232 reads as set, and \<open>mode_value\<close> is then the \<^verbatim>\<open>modeValue\<close> stored for it. When
  the active preset has a \<^verbatim>\<open>modeValue\<close> that is not 0, \<open>target_temperature\<close> is that value
  as a float, whatever the slider reading is. When no preset is active, or the value of
  the active preset is 0, it is the \<^verbatim>\<open>targetTemperature\<close> of the slider reading as a float,
  and \<^verbatim>\<open>None\<close> when there is no slider reading or the reading has no such field.
\<close>

theorem target_temperature_precedence:
  assumes resolved: "preset_mode e cached = Inr preset_name"
    and stored: "mode_value =
      (if py_truthy preset_name
       then map_option modeValue (dict_lookup (attr_preset_modes_mapping_set e) preset_name)
       else None)"
    and reading: "slider = cached ''devices.capabilities.temperature_setting'' ''sliderTemperature''"
  shows "(\<forall>v. mode_value = Some v \<and> v \<noteq> PNone \<and> \<not> py_eq v (PInt 0) \<longrightarrow>
            target_temperature parse e cached = ebind (py_float parse v) (\<lambda>x. Inr (Some x))) \<and>
         (mode_value = None \<or> mode_value = Some PNone \<or>
            (\<exists>v. mode_value = Some v \<and> py_eq v (PInt 0)) \<longrightarrow>
            (\<forall>d t. slider = PDict d \<and> map_of d ''targetTemperature'' = Some t \<and> t \<noteq> PNone \<longrightarrow>
               target_temperature parse e cached = ebind (py_float parse t) (\<lambda>x. Inr (Some x))) \<and>
            (slider = PNone \<or>
               (\<exists>d. slider = PDict d \<and>
                  (map_of d ''targetTemperature'' = None \<or>
                   map_of d ''targetTemperature'' = Some PNone)) \<longrightarrow>
               target_temperature parse e cached = Inr None))"
  using assms
  by (auto simp: target_temperature_def Let_def split: option.splits)

theorem target_temperature_precedence_witness:
  "target_temperature (\<lambda>s. None) heater_entity
     (heater_reading (PDict [(''workMode'', PInt 1), (''modeValue'', PInt 5)])) =
     Inr (Some (Finite 5)) \<and>
   target_temperature (\<lambda>s. None) heater_entity
     (heater_reading (PDict [(''workMode'', PInt 9), (''modeValue'', PInt 0)])) =
     Inr (Some (Finite 20)) \<and>
   target_temperature (\<lambda>s. None) heater_entity (heater_reading PNone) =
     Inr (Some (Finite 20)) \<and>
   target_temperature (\<lambda>s. None) heater_entity (cached_state []) = Inr None"
proof -
  let ?high = "heater_reading (PDict [(''workMode'', PInt 1), (''modeValue'', PInt 5)])"
  let ?fan = "heater_reading (PDict [(''workMode'', PInt 9), (''modeValue'', PInt 0)])"
  let ?none = "heater_reading PNone"
  let ?slider = "PDict [(''targetTemperature'', PInt 20), (''unit'', PStr ''Celsius'')]"
  have high: "preset_mode heater_entity ?high = Inr (PStr ''gearMode-High'')"
    and fan: "preset_mode heater_entity ?fan = Inr (PStr ''Fan'')"
    and none: "preset_mode heater_entity ?none = Inr PNone"
    and empty: "preset_mode heater_entity (cached_state []) = Inr PNone"
    by (simp_all add: preset_mode_def heater_reading_def cached_state_def heater_entity_def
        preset_matches_def)
  have a: "target_temperature (\<lambda>s. None) heater_entity ?high = Inr (Some (Finite 5))"
    using target_temperature_precedence [where e = heater_entity and cached = ?high
        and parse = "\<lambda>s. None", OF high refl refl]
    by (simp add: heater_entity_def round_small)
  have b: "target_temperature (\<lambda>s. None) heater_entity ?fan = Inr (Some (Finite 20))"
    using target_temperature_precedence [where e = heater_entity and cached = ?fan
        and parse = "\<lambda>s. None", OF fan refl refl]
    by (simp add: heater_entity_def heater_reading_def cached_state_def round_small)
  have c: "target_temperature (\<lambda>s. None) heater_entity ?none = Inr (Some (Finite 20))"
    using target_temperature_precedence [where e = heater_entity and cached = ?none
        and parse = "\<lambda>s. None", OF none refl refl]
    by (simp add: heater_reading_def cached_state_def round_small)
  have d: "target_temperature (\<lambda>s. None) heater_entity (cached_state []) = Inr None"
    using target_temperature_precedence [where e = heater_entity and cached = "cached_state []"
        and parse = "\<lambda>s. None", OF empty refl refl]
    by (simp add: cached_state_def)
  from a b c d show ?thesis by blast
qed

section \<open>The read properties return\<close>













section \<open>Setting the temperature\<close>

text \<open>
  C9. With no cached reading of the target temperature the reader returns \<^verbatim>\<open>None\<close>,
  and \<^verbatim>\<open>value.get\<close> raises AttributeError: no command is built. The properties check
  the reading for \<^verbatim>\<open>None\<close> (lines 217, 221 and 238); this method does not.
\<close>

theorem set_temperature_without_reading_raises:
  "async_set_temperature (cached_state []) [(''temperature'', PInt 21)] = Inl AttributeError"
  by (simp add: async_set_temperature_def cached_state_def)

text \<open>The default of line 248 applies to a reading that is a dict without a unit.\<close>

lemma set_temperature_default_unit:
  assumes "cached ''devices.capabilities.temperature_setting'' ''targetTemperature'' = PDict d"
    and "map_of d ''unit'' = None"
  shows "async_set_temperature cached [(''temperature'', t)] =
     Inr (PDict [(''type'', PStr ''devices.capabilities.temperature_setting''),
                 (''instance'', PStr ''targetTemperature''),
                 (''value'', PDict [(''temperature'', t), (''unit'', PStr ''Celsius'')])])"
  using assms by (simp add: async_set_temperature_def)

end
